theory Spec2Isabelle
  imports Complex_Main
begin

section \<open>Sort criteria: \<open>Sort\<close> of \<open>fast_boot_core/schemas.py\<close>\<close>

text \<open>
  \<open>class Direction(str, Enum)\<close> has the members \<open>ASC = "asc"\<close> and \<open>DESC = "desc"\<close>.
  Iterating the enum class yields the members in definition order.
\<close>

datatype Direction = ASC | DESC

fun Direction_value :: "Direction \<Rightarrow> string" where
  "Direction_value ASC = ''asc''"
| "Direction_value DESC = ''desc''"

definition Direction_members :: "Direction list" where
  "Direction_members = [ASC, DESC]"

text \<open>
  \<open>Direction(v)\<close>, the lookup of a member by its value, which the field validation of
  \<open>direction: Direction\<close> performs: the first member whose value is \<open>v\<close>, or no member.
\<close>

definition Direction_of_value :: "string \<Rightarrow> Direction option" where
  "Direction_of_value v = find (\<lambda>d. Direction_value d = v) Direction_members"

text \<open>
  \<open>order_by: str = None\<close> and \<open>direction: Direction = None\<close>: both fields default to
  \<open>None\<close>, so both are optional in the model.
\<close>

record Sort =
  order_by :: "string option"
  direction :: "Direction option"

text \<open>
  The failures of the pagination classes: \<open>str.index\<close> raises \<open>ValueError\<close> when the
  substring is absent, and a model raises \<open>ValidationError\<close> when it validates a field
  value and rejects it.
\<close>

datatype model_error = SubstringNotFound | ValidationError

text \<open>\<open>s.index(c)\<close> for a one-character \<open>c\<close>: the position of the first occurrence.\<close>

fun str_index :: "string \<Rightarrow> char \<Rightarrow> nat option" where
  "str_index [] c = None"
| "str_index (x # xs) c = (if x = c then Some 0 else map_option Suc (str_index xs c))"

text \<open>
  \<open>s[a:b]\<close> for non-negative bounds: the characters at positions \<open>a \<le> k < b\<close>, the empty
  string when \<open>b \<le> a\<close>; bounds beyond the end are clipped.
\<close>

definition str_slice :: "string \<Rightarrow> nat \<Rightarrow> nat \<Rightarrow> string" where
  "str_slice s a b = take (b - a) (drop a s)"

text \<open>
  \<open>cls(order_by=order_by, direction=direction)\<close> with two \<open>str\<close> arguments: the string is
  kept for \<open>order_by\<close>, and \<open>direction\<close> is converted to the enum member with that value
  or rejected.
\<close>

definition Sort_init :: "string \<Rightarrow> string \<Rightarrow> model_error + Sort" where
  "Sort_init ob dir =
     (case Direction_of_value dir of
        None \<Rightarrow> Inl ValidationError
      | Some d \<Rightarrow> Inr \<lparr>order_by = Some ob, direction = Some d\<rparr>)"

text \<open>
  \<^verbatim>\<open>
  def from_str(cls, sort_criteria: str):
      order_by = sort_criteria[:sort_criteria.index("(")]
      direction = sort_criteria[sort_criteria.index("(") + 1:sort_criteria.index(")")]
      return cls(order_by=order_by, direction=direction)
  \<close>
\<close>

definition from_str :: "string \<Rightarrow> model_error + Sort" where
  "from_str sort_criteria =
     (case str_index sort_criteria (CHR ''('') of
        None \<Rightarrow> Inl SubstringNotFound
      | Some i \<Rightarrow>
          (let ob = str_slice sort_criteria 0 i in
           case str_index sort_criteria (CHR '')'') of
             None \<Rightarrow> Inl SubstringNotFound
           | Some j \<Rightarrow> Sort_init ob (str_slice sort_criteria (i + 1) j)))"

text \<open>
  How an f-string formats a member of a \<open>(str, Enum)\<close> class depends on the interpreter.
  Up to Python 3.10 the member is formatted by \<open>str.__format__\<close>, as its value
  (\<open>desc\<close>). From Python 3.11 on it is formatted by \<open>Enum.__str__\<close>, as the class name
  and the member name (\<open>Direction.DESC\<close>). The code runs on both, so the rule is a
  parameter of every function that formats a direction.
\<close>

datatype enum_format = ByValue | ByName

fun Direction_name :: "Direction \<Rightarrow> string" where
  "Direction_name ASC = ''ASC''"
| "Direction_name DESC = ''DESC''"

fun format_Direction :: "enum_format \<Rightarrow> Direction \<Rightarrow> string" where
  "format_Direction ByValue d = Direction_value d"
| "format_Direction ByName d = ''Direction.'' @ Direction_name d"

text \<open>Formatting a field inside an f-string. \<open>None\<close> prints as \<open>None\<close>.\<close>

definition fmt_order_by :: "string option \<Rightarrow> string" where
  "fmt_order_by ob = (case ob of None \<Rightarrow> ''None'' | Some s \<Rightarrow> s)"

definition fmt_direction :: "enum_format \<Rightarrow> Direction option \<Rightarrow> string" where
  "fmt_direction ef d = (case d of None \<Rightarrow> ''None'' | Some m \<Rightarrow> format_Direction ef m)"

text \<open>\<^verbatim>\<open>def to_str(self): return f"{self.order_by}({self.direction})"\<close>\<close>

definition to_str :: "enum_format \<Rightarrow> Sort \<Rightarrow> string" where
  "to_str ef c = fmt_order_by (order_by c) @ ''('' @ fmt_direction ef (direction c) @ '')''"

text \<open>
  The operation as the specification words it: order_by is everything before the first
  \<open>(\<close>, direction is everything between that \<open>(\<close> and the first \<open>)\<close> after it, and the
  parse fails when a delimiter is absent or the direction is no enum value.
\<close>

definition parseSortCriterion_spec :: "string \<Rightarrow> Sort option" where
  "parseSortCriterion_spec text =
     (case str_index text (CHR ''('') of
        None \<Rightarrow> None
      | Some i \<Rightarrow>
          (let after = drop (i + 1) text in
           case str_index after (CHR '')'') of
             None \<Rightarrow> None
           | Some j \<Rightarrow>
               (case Direction_of_value (take j after) of
                  None \<Rightarrow> None
                | Some d \<Rightarrow> Some \<lparr>order_by = Some (take i text), direction = Some d\<rparr>)))"

definition result_of :: "'e + 'a \<Rightarrow> 'a option" where
  "result_of r = (case r of Inl e \<Rightarrow> None | Inr x \<Rightarrow> Some x)"

section \<open>Page requests: \<open>Pageable\<close>\<close>

text \<open>
  \<^verbatim>\<open>
  class Pageable(BaseModel):
      sort: List[Sort] = Field([])
      size: int = Field(100, gt=0)
      page: int = Field(1, gt=0)
  \<close>
  The fields in declaration order; \<open>sort\<close> and \<open>size\<close> carry a suffix, the names being
  taken in HOL.
\<close>

record Pageable =
  sort_field :: "Sort list"
  size_field :: int
  page :: int

definition Pageable_defaults :: Pageable where
  "Pageable_defaults = \<lparr>sort_field = [], size_field = 100, page = 1\<rparr>"

text \<open>The constraint \<open>gt=0\<close> declared on \<open>size\<close> and on \<open>page\<close>.\<close>

definition gt_0 :: "int \<Rightarrow> bool" where
  "gt_0 v = (0 < v)"

text \<open>
  The model configuration, as far as construction depends on it. \<open>Pageable\<close> declares no
  \<open>Config\<close>, so it has the defaults of \<open>BaseModel\<close>: default values are not validated and
  an assignment to a field is not validated.
\<close>

record Config =
  validate_all :: bool
  validate_assignment :: bool

definition Pageable_Config :: Config where
  "Pageable_Config = \<lparr>validate_all = False, validate_assignment = False\<rparr>"

text \<open>
  \<open>super().__init__()\<close>: the model is built from no input at all. No field is required,
  so every field takes its default; the defaults are validated only under
  \<open>validate_all\<close>.
\<close>

definition BaseModel_init :: "Config \<Rightarrow> model_error + Pageable" where
  "BaseModel_init cfg =
     (if validate_all cfg \<and>
         \<not> (gt_0 (size_field Pageable_defaults) \<and> gt_0 (page Pageable_defaults))
      then Inl ValidationError else Inr Pageable_defaults)"

text \<open>
  \<open>self.name = value\<close> on a model, \<open>BaseModel.__setattr__\<close>: the value is validated against
  the field's constraints only under \<open>validate_assignment\<close>; otherwise it is stored as it
  is.
\<close>

definition setattr_sort :: "Config \<Rightarrow> Pageable \<Rightarrow> Sort list \<Rightarrow> model_error + Pageable" where
  "setattr_sort cfg p v = Inr (p\<lparr>sort_field := v\<rparr>)"

definition setattr_size :: "Config \<Rightarrow> Pageable \<Rightarrow> int \<Rightarrow> model_error + Pageable" where
  "setattr_size cfg p v =
     (if validate_assignment cfg \<and> \<not> gt_0 v then Inl ValidationError
      else Inr (p\<lparr>size_field := v\<rparr>))"

definition setattr_page :: "Config \<Rightarrow> Pageable \<Rightarrow> int \<Rightarrow> model_error + Pageable" where
  "setattr_page cfg p v =
     (if validate_assignment cfg \<and> \<not> gt_0 v then Inl ValidationError
      else Inr (p\<lparr>page := v\<rparr>))"

definition and_then :: "'e + 'a \<Rightarrow> ('a \<Rightarrow> 'e + 'b) \<Rightarrow> 'e + 'b" where
  "and_then r f = (case r of Inl e \<Rightarrow> Inl e | Inr x \<Rightarrow> f x)"

text \<open>
  \<^verbatim>\<open>
  def __init__(self, size: int, page: int, sort: List[Sort]):
      super().__init__()
      self.sort = sort
      self.size = size
      self.page = page
  \<close>
\<close>

definition Pageable_init :: "int \<Rightarrow> int \<Rightarrow> Sort list \<Rightarrow> model_error + Pageable" where
  "Pageable_init sz pg srt =
     and_then (BaseModel_init Pageable_Config) (\<lambda>self.
     and_then (setattr_sort Pageable_Config self srt) (\<lambda>self.
     and_then (setattr_size Pageable_Config self sz) (\<lambda>self.
     setattr_page Pageable_Config self pg)))"










section \<open>The boundary pattern: \<open>Sort.query_regex\<close>\<close>

definition backslash :: char where
  "backslash = CHR 0x5C"

definition newline :: char where
  "newline = CHR 0x0A"

text \<open>\<open>sep.join(xs)\<close>.\<close>

fun str_join :: "string \<Rightarrow> string list \<Rightarrow> string" where
  "str_join sep [] = []"
| "str_join sep [x] = x"
| "str_join sep (x # y # ys) = x @ sep @ str_join sep (y # ys)"

text \<open>
  \<open>template.format(arg)\<close> for a template with one replacement field \<open>{}\<close> and no other
  brace: the field is replaced by the argument.
\<close>

fun str_format1 :: "string \<Rightarrow> string \<Rightarrow> string" where
  "str_format1 [] arg = []"
| "str_format1 [c] arg = [c]"
| "str_format1 (c # d # cs) arg =
     (if c = CHR ''{'' \<and> d = CHR ''}'' then arg @ cs else c # str_format1 (d # cs) arg)"

text \<open>
  \<^verbatim>\<open>
  def query_regex():
      return r"^.+\((?:{})\)$".format("|".join([v.value for v in Sort.Direction]))
  \<close>
\<close>

definition query_regex :: string where
  "query_regex =
     str_format1 (''^.+'' @ [backslash] @ ''((?:{})'' @ [backslash] @ '')$'')
       (str_join ''|'' (map Direction_value Direction_members))"

text \<open>
  The pattern is a string; what it accepts is decided by Python's \<open>re\<close> module, through
  \<open>re.match\<close>, which the validation of a query parameter declared with \<open>regex=\<close> calls.
  The part of \<open>re\<close> that such patterns use is modelled here: literal characters, escaped
  punctuation, \<open>.\<close> (any character but a line feed), \<open>^\<close> (the start of the subject),
  \<open>$\<close> (the end of the subject, or just before a line feed that ends it), \<open>+\<close>, \<open>|\<close>
  and non-capturing groups \<open>(?:...)\<close>. A pattern outside this part is not compiled.
\<close>

datatype regex =
    Lit char | AnyChar | Bol | Eol | Eps
  | Seq regex regex | Alt regex regex | Plus regex

datatype token = TLit char | TDot | TBol | TEol | TPlus | TBar | TOpen | TClose

datatype lexer_state = Normal | Escape | Group | GroupQ

fun tokenize :: "lexer_state \<Rightarrow> string \<Rightarrow> token list option" where
  "tokenize Normal [] = Some []"
| "tokenize Escape [] = None"
| "tokenize Group [] = None"
| "tokenize GroupQ [] = None"
| "tokenize Normal (c # cs) =
     (if c = backslash then tokenize Escape cs
      else if c = CHR ''('' then tokenize Group cs
      else if c = CHR '')'' then map_option ((#) TClose) (tokenize Normal cs)
      else if c = CHR ''|'' then map_option ((#) TBar) (tokenize Normal cs)
      else if c = CHR ''+'' then map_option ((#) TPlus) (tokenize Normal cs)
      else if c = CHR ''.'' then map_option ((#) TDot) (tokenize Normal cs)
      else if c = CHR ''^'' then map_option ((#) TBol) (tokenize Normal cs)
      else if c = CHR ''$'' then map_option ((#) TEol) (tokenize Normal cs)
      else if c \<in> set ''*?[]{}'' then None
      else map_option ((#) (TLit c)) (tokenize Normal cs))"
| "tokenize Escape (c # cs) =
     (if c \<in> set ''.^$*+?{}[]|()'' \<or> c = backslash
      then map_option ((#) (TLit c)) (tokenize Normal cs) else None)"
| "tokenize Group (c # cs) = (if c = CHR ''?'' then tokenize GroupQ cs else None)"
| "tokenize GroupQ (c # cs) =
     (if c = CHR '':'' then map_option ((#) TOpen) (tokenize Normal cs) else None)"

text \<open>
  The parser keeps a stack of open groups. A frame holds the alternatives of its group
  that are complete and the items of the alternative being read.
\<close>

fun mk_seq :: "regex list \<Rightarrow> regex" where
  "mk_seq [] = Eps"
| "mk_seq [r] = r"
| "mk_seq (r # q # rs) = Seq r (mk_seq (q # rs))"

fun mk_alt :: "regex list \<Rightarrow> regex" where
  "mk_alt [] = Eps"
| "mk_alt [r] = r"
| "mk_alt (r # q # rs) = Alt r (mk_alt (q # rs))"

type_synonym frame = "regex list \<times> regex list"

definition close_frame :: "frame \<Rightarrow> regex" where
  "close_frame f = mk_alt (fst f @ [mk_seq (snd f)])"

fun repeatable :: "regex \<Rightarrow> bool" where
  "repeatable Bol = False"
| "repeatable Eol = False"
| "repeatable (Plus r) = False"
| "repeatable r = True"

fun parse_tokens :: "token list \<Rightarrow> frame list \<Rightarrow> regex option" where
  "parse_tokens [] [f] = Some (close_frame f)"
| "parse_tokens [] stack = None"
| "parse_tokens (t # ts) [] = None"
| "parse_tokens (TLit c # ts) ((alts, items) # stack) =
     parse_tokens ts ((alts, items @ [Lit c]) # stack)"
| "parse_tokens (TDot # ts) ((alts, items) # stack) =
     parse_tokens ts ((alts, items @ [AnyChar]) # stack)"
| "parse_tokens (TBol # ts) ((alts, items) # stack) =
     parse_tokens ts ((alts, items @ [Bol]) # stack)"
| "parse_tokens (TEol # ts) ((alts, items) # stack) =
     parse_tokens ts ((alts, items @ [Eol]) # stack)"
| "parse_tokens (TPlus # ts) ((alts, items) # stack) =
     (if items \<noteq> [] \<and> repeatable (last items)
      then parse_tokens ts ((alts, butlast items @ [Plus (last items)]) # stack)
      else None)"
| "parse_tokens (TBar # ts) ((alts, items) # stack) =
     parse_tokens ts ((alts @ [mk_seq items], []) # stack)"
| "parse_tokens (TOpen # ts) stack = parse_tokens ts (([], []) # stack)"
| "parse_tokens (TClose # ts) [f] = None"
| "parse_tokens (TClose # ts) (f # (alts, items) # stack) =
     parse_tokens ts ((alts, items @ [close_frame f]) # stack)"

definition re_compile :: "string \<Rightarrow> regex option" where
  "re_compile pattern =
     (case tokenize Normal pattern of None \<Rightarrow> None | Some ts \<Rightarrow> parse_tokens ts [([], [])])"

text \<open>
  Matching. A cursor is the rest of the subject together with a flag that says whether
  the cursor still stands at the start of the subject. \<open>step r\<close> lists the cursors that
  \<open>r\<close> can reach from a cursor. For \<open>r+\<close> the pattern \<open>r\<close> is applied at least once and
  at most once more than the subject has characters left: a repetition that consumes
  nothing reaches no new cursor, so more rounds reach nothing new.
\<close>

type_synonym cursor = "bool \<times> string"

fun iterate :: "('s \<Rightarrow> 's list) \<Rightarrow> nat \<Rightarrow> 's list \<Rightarrow> 's list" where
  "iterate f 0 cs = []"
| "iterate f (Suc n) cs = (let nxt = remdups (concat (map f cs)) in nxt @ iterate f n nxt)"

primrec step :: "regex \<Rightarrow> cursor \<Rightarrow> cursor list" where
  "step (Lit c) = (\<lambda>(b, rest). case rest of [] \<Rightarrow> [] | x # r \<Rightarrow> if x = c then [(False, r)] else [])"
| "step AnyChar = (\<lambda>(b, rest). case rest of [] \<Rightarrow> [] | x # r \<Rightarrow> if x = newline then [] else [(False, r)])"
| "step Bol = (\<lambda>(b, rest). if b then [(b, rest)] else [])"
| "step Eol = (\<lambda>(b, rest). if rest = [] \<or> rest = [newline] then [(b, rest)] else [])"
| "step Eps = (\<lambda>cur. [cur])"
| "step (Seq r q) = (\<lambda>cur. concat (map (step q) (step r cur)))"
| "step (Alt r q) = (\<lambda>cur. step r cur @ step q cur)"
| "step (Plus r) = (\<lambda>cur. iterate (step r) (Suc (length (snd cur))) [cur])"

text \<open>\<open>re.match(pattern, s) is not None\<close>; \<open>None\<close> when the pattern is not compiled.\<close>

definition re_match :: "string \<Rightarrow> string \<Rightarrow> bool option" where
  "re_match pattern s = map_option (\<lambda>r. step r (True, s) \<noteq> []) (re_compile pattern)"


text \<open>
  The form the specification gives for an accepted sort token: a non-empty text followed
  by \<open>(asc)\<close> or \<open>(desc)\<close>.
\<close>

definition sort_token_form :: "string \<Rightarrow> bool" where
  "sort_token_form s =
     list_ex (\<lambda>v. let suffix = ''('' @ v @ '')''
                   in length suffix < length s \<and> drop (length s - length suffix) s = suffix)
       (map Direction_value Direction_members)"

text \<open>The pattern as \<open>re\<close> compiles it, and the part of it after \<open>^.+\<close>.\<close>

definition query_regex_ast :: regex where
  "query_regex_ast =
     Seq Bol (Seq (Plus AnyChar) (Seq (Lit (CHR ''(''))
       (Seq (Alt (Seq (Lit (CHR ''a'')) (Seq (Lit (CHR ''s'')) (Lit (CHR ''c''))))
                 (Seq (Lit (CHR ''d'')) (Seq (Lit (CHR ''e'')) (Seq (Lit (CHR ''s'')) (Lit (CHR ''c''))))))
          (Seq (Lit (CHR '')'')) Eol))))"

definition query_regex_tail :: regex where
  "query_regex_tail =
     Seq (Lit (CHR ''(''))
       (Seq (Alt (Seq (Lit (CHR ''a'')) (Seq (Lit (CHR ''s'')) (Lit (CHR ''c''))))
                 (Seq (Lit (CHR ''d'')) (Seq (Lit (CHR ''e'')) (Seq (Lit (CHR ''s'')) (Lit (CHR ''c''))))))
          (Seq (Lit (CHR '')'')) Eol))"


section \<open>Temporal coercion: \<open>Schema.datetime_or_date_to_timestamp\<close>\<close>

text \<open>
  A \<open>datetime.date\<close> and a \<open>datetime.datetime\<close>. \<open>tzinfo\<close> is \<open>None\<close> for a naive
  datetime and the offset from UTC, in seconds, for an aware one.
\<close>

record pydate =
  d_year :: int
  d_month :: int
  d_day :: int

record pydatetime =
  year :: int
  month :: int
  day :: int
  hour :: int
  minute :: int
  second :: int
  microsecond :: int
  tzinfo :: "int option"

text \<open>
  The values a field can receive, by their Python type. The type \<open>'f\<close> stands for
  Python's \<open>float\<close>.
\<close>

datatype 'f pyval =
    PyNone
  | PyBool bool
  | PyInt int
  | PyFloat 'f
  | PyStr string
  | PyDatetime pydatetime
  | PyDate pydate

text \<open>\<open>val.type_\<close>, the declared type of the field (\<open>ftype\<close> below): \<open>datetime\<close>, \<open>date\<close> or another type.\<close>

datatype field_type = TDatetime | TDate | TOther

text \<open>
  The exceptions of the validator: those that \<open>float(v)\<close> raises, and
  \<open>ValueError(f'{v} is not valid')\<close>, which carries the rejected value.
\<close>

datatype 'f pyerror = TypeError | ValueError | OverflowError | NotValid "'f pyval"

text \<open>
  The functions of the Python standard library that the validator calls. They are not
  part of this repository and are parameters of the model. \<open>None\<close> stands for a raised
  exception: \<open>OverflowError\<close> for \<open>float\<close> of an \<open>int\<close>, \<open>ValueError\<close> for \<open>float\<close> of
  a \<open>str\<close>, and any exception for the four \<open>datetime\<close> functions, which the validator
  calls under \<open>except Exception\<close>.
\<close>

record 'f pylib =
  float_of_int :: "int \<Rightarrow> 'f option"
  float_of_str :: "string \<Rightarrow> 'f option"
  fromtimestamp :: "'f \<Rightarrow> pydatetime option"
  fromisoformat :: "string \<Rightarrow> pydatetime option"
  strptime_ymd :: "string \<Rightarrow> pydatetime option"
  timestamp :: "pydatetime \<Rightarrow> 'f option"

text \<open>
  \<open>float(v)\<close>. \<open>None\<close>, a \<open>datetime\<close> and a \<open>date\<close> are neither strings nor numbers:
  \<open>TypeError\<close>. A \<open>bool\<close> is an \<open>int\<close>.
\<close>

definition py_float :: "('f, 'z) pylib_scheme \<Rightarrow> 'f pyval \<Rightarrow> 'f pyerror + 'f" where
  "py_float lib v =
     (case v of
        PyNone \<Rightarrow> Inl TypeError
      | PyBool b \<Rightarrow>
          (case float_of_int lib (if b then 1 else 0) of
             None \<Rightarrow> Inl OverflowError | Some f \<Rightarrow> Inr f)
      | PyInt i \<Rightarrow>
          (case float_of_int lib i of None \<Rightarrow> Inl OverflowError | Some f \<Rightarrow> Inr f)
      | PyFloat f \<Rightarrow> Inr f
      | PyStr s \<Rightarrow>
          (case float_of_str lib s of None \<Rightarrow> Inl ValueError | Some f \<Rightarrow> Inr f)
      | PyDatetime d \<Rightarrow> Inl TypeError
      | PyDate d \<Rightarrow> Inl TypeError)"

text \<open>
  \<^verbatim>\<open>
  try:
      bool(float(v))
      is_numeric = True
  except ValueError:
      is_numeric = False
  \<close>
  Only \<open>ValueError\<close> is caught; any other exception of \<open>float(v)\<close> leaves the validator.
\<close>

definition numeric_probe :: "('f, 'z) pylib_scheme \<Rightarrow> 'f pyval \<Rightarrow> 'f pyerror + bool" where
  "numeric_probe lib v =
     (case py_float lib v of
        Inr f \<Rightarrow> Inr True
      | Inl e \<Rightarrow> (case e of ValueError \<Rightarrow> Inr False | _ \<Rightarrow> Inl e))"

text \<open>\<open>type(v) in {int, float}\<close>: the exact type, so a \<open>bool\<close> is not included.\<close>

definition type_in_int_float :: "'f pyval \<Rightarrow> bool" where
  "type_in_int_float v = (case v of PyInt i \<Rightarrow> True | PyFloat f \<Rightarrow> True | _ \<Rightarrow> False)"

text \<open>
  \<^verbatim>\<open>
  try:
      return datetime.fromtimestamp(float(v))
  except Exception:
      raise ValueError(f'{v} is not valid')
  \<close>
\<close>

definition from_timestamp_branch :: "('f, 'z) pylib_scheme \<Rightarrow> 'f pyval \<Rightarrow> 'f pyerror + 'f pyval" where
  "from_timestamp_branch lib v =
     (case py_float lib v of
        Inl e \<Rightarrow> Inl (NotValid v)
      | Inr f \<Rightarrow>
          (case fromtimestamp lib f of
             None \<Rightarrow> Inl (NotValid v)
           | Some d \<Rightarrow> Inr (PyDatetime d)))"

text \<open>
  \<^verbatim>\<open>
  try:
      return datetime.fromisoformat(v).timestamp()
  except Exception:
      raise ValueError(f'{v} is not valid')
  \<close>
  and the same with \<open>datetime.strptime(v, '%Y-%m-%d')\<close> for a \<open>date\<close> field; \<open>parse\<close> is
  the parsing function.
\<close>

definition parse_branch ::
  "('f, 'z) pylib_scheme \<Rightarrow> (string \<Rightarrow> pydatetime option) \<Rightarrow> string \<Rightarrow> 'f pyerror + 'f pyval" where
  "parse_branch lib parse s =
     (case parse s of
        None \<Rightarrow> Inl (NotValid (PyStr s))
      | Some d \<Rightarrow>
          (case timestamp lib d of
             None \<Rightarrow> Inl (NotValid (PyStr s))
           | Some t \<Rightarrow> Inr (PyFloat t)))"

text \<open>
  The validator, \<open>@validator('*', pre=True)\<close>. A \<open>return\<close> without a value returns
  \<open>None\<close>. Where no branch of the \<open>if\<close> chain of a temporal field applies, control
  reaches the final \<open>return v\<close>.
  \<^verbatim>\<open>
  if val.type_ is datetime:
      (probe)
      if v is None:
          return
      elif type(v) is datetime:
          return v.replace(tzinfo=None)
      elif type(v) in {int, float} or is_numeric:
          (timestamp branch)
      elif type(v) is str:
          (fromisoformat branch)
  if val.type_ is date:
      (probe)
      if v is None:
          return
      elif type(v) is date:
          return v
      elif type(v) in {int, float} or is_numeric:
          (timestamp branch)
      elif type(v) is str:
          (strptime branch)
  return v
  \<close>
\<close>

definition datetime_or_date_to_timestamp ::
  "('f, 'z) pylib_scheme \<Rightarrow> field_type \<Rightarrow> 'f pyval \<Rightarrow> 'f pyerror + 'f pyval" where
  "datetime_or_date_to_timestamp lib ftype v =
     (if ftype = TDatetime then
        and_then (numeric_probe lib v) (\<lambda>is_numeric.
          case v of
            PyNone \<Rightarrow> Inr PyNone
          | PyDatetime d \<Rightarrow> Inr (PyDatetime (d\<lparr>tzinfo := None\<rparr>))
          | _ \<Rightarrow>
              if type_in_int_float v \<or> is_numeric then from_timestamp_branch lib v
              else (case v of
                      PyStr s \<Rightarrow> parse_branch lib (fromisoformat lib) s
                    | _ \<Rightarrow> Inr v))
      else if ftype = TDate then
        and_then (numeric_probe lib v) (\<lambda>is_numeric.
          case v of
            PyNone \<Rightarrow> Inr PyNone
          | PyDate d \<Rightarrow> Inr (PyDate d)
          | _ \<Rightarrow>
              if type_in_int_float v \<or> is_numeric then from_timestamp_branch lib v
              else (case v of
                      PyStr s \<Rightarrow> parse_branch lib (strptime_ymd lib) s
                    | _ \<Rightarrow> Inr v))
      else Inr v)"

section \<open>A reference instance of the library functions\<close>

text \<open>
  An instance of the library parameters for evaluating the validator on concrete inputs:
  a host whose local time zone is UTC, with \<open>float\<close> taken as the exact real number (no
  rounding, no infinities, no NaN). It covers signed decimal numerals with an optional
  fraction for \<open>float\<close> of a string, and the forms \<open>YYYY-MM-DD\<close> and
  \<open>YYYY-MM-DD?HH:MM:SS\<close> (any separator character) for \<open>fromisoformat\<close>; on the other
  spellings that Python accepts it answers \<open>None\<close>.
\<close>

definition is_digit :: "char \<Rightarrow> bool" where
  "is_digit c = (c \<in> set ''0123456789'')"

definition digit_value :: "char \<Rightarrow> nat" where
  "digit_value c = (case str_index ''0123456789'' c of None \<Rightarrow> 0 | Some n \<Rightarrow> n)"

definition nat_of_digits :: "string \<Rightarrow> nat" where
  "nat_of_digits s = foldl (\<lambda>a c. 10 * a + digit_value c) 0 s"

definition unsigned_decimal :: "string \<Rightarrow> real option" where
  "unsigned_decimal s =
     (let ip = takeWhile is_digit s; rest = dropWhile is_digit s in
      case rest of
        [] \<Rightarrow> if ip = [] then None else Some (real (nat_of_digits ip))
      | c # fp \<Rightarrow>
          if c = CHR ''.'' \<and> list_all is_digit fp \<and> (ip \<noteq> [] \<or> fp \<noteq> [])
          then Some (real (nat_of_digits ip) + real (nat_of_digits fp) / 10 ^ length fp)
          else None)"

definition decimal_float_of_str :: "string \<Rightarrow> real option" where
  "decimal_float_of_str s =
     (case s of
        [] \<Rightarrow> None
      | c # cs \<Rightarrow>
          if c = CHR ''-'' then map_option uminus (unsigned_decimal cs)
          else if c = CHR ''+'' then unsigned_decimal cs
          else unsigned_decimal s)"

text \<open>
  \<open>float(i)\<close> of an \<open>int\<close> raises \<open>OverflowError\<close> when \<open>i\<close> rounds to a magnitude of
  \<open>2 ^ 1024\<close> or more.
\<close>

definition double_float_of_int :: "int \<Rightarrow> real option" where
  "double_float_of_int i = (if \<bar>i\<bar> < 2 ^ 1024 - 2 ^ 970 then Some (real_of_int i) else None)"

text \<open>The proleptic Gregorian calendar: days since 1970-01-01 and back.\<close>

definition is_leap :: "int \<Rightarrow> bool" where
  "is_leap y = (y mod 4 = 0 \<and> (y mod 400 = 0 \<or> y mod 100 \<noteq> 0))"

definition days_in_month :: "int \<Rightarrow> int \<Rightarrow> int" where
  "days_in_month y m =
     (if m = 2 then (if is_leap y then 29 else 28)
      else if m = 4 \<or> m = 6 \<or> m = 9 \<or> m = 11 then 30 else 31)"

definition days_from_civil :: "int \<Rightarrow> int \<Rightarrow> int \<Rightarrow> int" where
  "days_from_civil y m d =
     (let y' = (if m \<le> 2 then y - 1 else y);
          era = y' div 400;
          yoe = y' - era * 400;
          doy = (153 * (if m > 2 then m - 3 else m + 9) + 2) div 5 + d - 1;
          doe = yoe * 365 + yoe div 4 - yoe div 100 + doy
      in era * 146097 + doe - 719468)"

definition civil_from_days :: "int \<Rightarrow> int \<times> int \<times> int" where
  "civil_from_days z =
     (let z' = z + 719468;
          era = z' div 146097;
          doe = z' - era * 146097;
          yoe = (doe - doe div 1460 + doe div 36524 - doe div 146096) div 365;
          doy = doe - (365 * yoe + yoe div 4 - yoe div 100);
          mp = (5 * doy + 2) div 153;
          d = doy - (153 * mp + 2) div 5 + 1;
          m = (if mp < 10 then mp + 3 else mp - 9)
      in (if m \<le> 2 then yoe + era * 400 + 1 else yoe + era * 400, m, d))"

text \<open>
  The constructor \<open>datetime(y, m, d, hh, mm, ss)\<close>, which raises \<open>ValueError\<close> for a field
  out of range.
\<close>

definition make_datetime :: "int \<Rightarrow> int \<Rightarrow> int \<Rightarrow> int \<Rightarrow> int \<Rightarrow> int \<Rightarrow> pydatetime option" where
  "make_datetime y m d hh mm ss =
     (if 1 \<le> y \<and> y \<le> 9999 \<and> 1 \<le> m \<and> m \<le> 12 \<and> 1 \<le> d \<and> d \<le> days_in_month y m
         \<and> 0 \<le> hh \<and> hh < 24 \<and> 0 \<le> mm \<and> mm < 60 \<and> 0 \<le> ss \<and> ss < 60
      then Some \<lparr>year = y, month = m, day = d, hour = hh, minute = mm, second = ss,
                 microsecond = 0, tzinfo = None\<rparr>
      else None)"

definition digits_at :: "string \<Rightarrow> nat \<Rightarrow> nat \<Rightarrow> int option" where
  "digits_at s a n =
     (let w = str_slice s a (a + n) in
      if length w = n \<and> list_all is_digit w then Some (int (nat_of_digits w)) else None)"

definition char_at :: "string \<Rightarrow> nat \<Rightarrow> char \<Rightarrow> bool" where
  "char_at s k c = (k < length s \<and> s ! k = c)"

definition parse_ymd :: "string \<Rightarrow> pydatetime option" where
  "parse_ymd s =
     (if length s = 10 \<and> char_at s 4 (CHR ''-'') \<and> char_at s 7 (CHR ''-'') then
        Option.bind (digits_at s 0 4) (\<lambda>y.
        Option.bind (digits_at s 5 2) (\<lambda>m.
        Option.bind (digits_at s 8 2) (\<lambda>d. make_datetime y m d 0 0 0)))
      else None)"

definition parse_iso :: "string \<Rightarrow> pydatetime option" where
  "parse_iso s =
     (if length s = 10 then parse_ymd s
      else if length s = 19 \<and> char_at s 4 (CHR ''-'') \<and> char_at s 7 (CHR ''-'')
              \<and> char_at s 13 (CHR '':'') \<and> char_at s 16 (CHR '':'') then
        Option.bind (digits_at s 0 4) (\<lambda>y.
        Option.bind (digits_at s 5 2) (\<lambda>m.
        Option.bind (digits_at s 8 2) (\<lambda>d.
        Option.bind (digits_at s 11 2) (\<lambda>hh.
        Option.bind (digits_at s 14 2) (\<lambda>mm.
        Option.bind (digits_at s 17 2) (\<lambda>ss. make_datetime y m d hh mm ss))))))
      else None)"

text \<open>
  \<open>d.timestamp()\<close>: the seconds since 1970-01-01T00:00:00 UTC. A naive datetime is taken
  in local time, which is UTC here.
\<close>

definition utc_timestamp :: "pydatetime \<Rightarrow> real option" where
  "utc_timestamp d =
     Some (real_of_int (days_from_civil (year d) (month d) (day d) * 86400
                        + hour d * 3600 + minute d * 60 + second d
                        - (case tzinfo d of None \<Rightarrow> 0 | Some off \<Rightarrow> off))
           + real_of_int (microsecond d) / 1000000)"

definition round_half_even :: "real \<Rightarrow> int" where
  "round_half_even x =
     (let f = \<lfloor>x\<rfloor>; r = x - real_of_int f in
      if r < 1 / 2 then f else if 1 / 2 < r then f + 1 else if even f then f else f + 1)"

text \<open>
  \<open>datetime.fromtimestamp(t)\<close>: the naive local datetime at \<open>t\<close> seconds since the epoch,
  the fraction rounded to microseconds; an exception when the year is out of range.
\<close>

definition utc_fromtimestamp :: "real \<Rightarrow> pydatetime option" where
  "utc_fromtimestamp t =
     (let us0 = round_half_even ((t - real_of_int \<lfloor>t\<rfloor>) * 1000000);
          secs = \<lfloor>t\<rfloor> + (if us0 = 1000000 then 1 else 0);
          us = (if us0 = 1000000 then 0 else us0);
          sod = secs mod 86400
      in case civil_from_days (secs div 86400) of
           (y, m, d) \<Rightarrow>
             if 1 \<le> y \<and> y \<le> 9999
             then Some \<lparr>year = y, month = m, day = d, hour = sod div 3600,
                        minute = sod mod 3600 div 60, second = sod mod 60,
                        microsecond = us, tzinfo = None\<rparr>
             else None)"

definition utc_lib :: "real pylib" where
  "utc_lib =
     \<lparr>float_of_int = double_float_of_int,
      float_of_str = decimal_float_of_str,
      fromtimestamp = utc_fromtimestamp,
      fromisoformat = parse_iso,
      strptime_ymd = parse_ymd,
      timestamp = utc_timestamp\<rparr>"

section \<open>Properties of the sort criteria\<close>

lemma str_index_append_hit:
  "c \<notin> set xs \<Longrightarrow> str_index (xs @ c # ys) c = Some (length xs)"
  by (induction xs) auto

lemma Direction_of_value_value: "Direction_of_value (Direction_value d) = Some d"
  by (cases d) (simp_all add: Direction_of_value_def Direction_members_def)

lemma from_str_rendered:
  assumes "CHR ''('' \<notin> set n" and "CHR '')'' \<notin> set n"
    and "CHR ''('' \<notin> set v" and "CHR '')'' \<notin> set v"
  shows "from_str (n @ ''('' @ v @ '')'') = Sort_init n v"
proof -
  let ?s = "n @ ''('' @ v @ '')''"
  have shape: "?s = n @ CHR ''('' # (v @ '')'')"
    by simp
  have open_at: "str_index ?s (CHR ''('') = Some (length n)"
    unfolding shape using assms(1) by (rule str_index_append_hit)
  have "CHR '')'' \<notin> set (n @ ''('' @ v)"
    using assms(2,4) by simp
  then have "str_index ((n @ ''('' @ v) @ CHR '')'' # []) (CHR '')'') = Some (length (n @ ''('' @ v))"
    by (rule str_index_append_hit)
  then have close_at: "str_index ?s (CHR '')'') = Some (Suc (length n + length v))"
    by simp
  have ob: "str_slice ?s 0 (length n) = n"
    by (simp add: str_slice_def)
  have dir: "str_slice ?s (Suc (length n)) (Suc (length n + length v)) = v"
    by (simp add: str_slice_def)
  show ?thesis
    using open_at close_at ob dir by (simp add: from_str_def)
qed

lemma format_Direction_no_paren:
  "CHR ''('' \<notin> set (format_Direction ef d)" "CHR '')'' \<notin> set (format_Direction ef d)"
  by (cases ef; cases d; simp)+

lemma from_str_to_str:
  assumes "order_by c = Some n" and "direction c = Some d"
    and "CHR ''('' \<notin> set n" and "CHR '')'' \<notin> set n"
  shows "from_str (to_str ef c) = Sort_init n (format_Direction ef d)"
proof -
  have "to_str ef c = n @ ''('' @ format_Direction ef d @ '')''"
    using assms(1,2) by (simp add: to_str_def fmt_order_by_def fmt_direction_def)
  then show ?thesis
    using from_str_rendered [OF assms(3,4) format_Direction_no_paren [of ef d]] by simp
qed

text \<open>
  Where a member is formatted as its value, rendering a sort criterion and parsing the
  text again gives the criterion back, for every criterion that has a direction and a
  field name without parentheses.
\<close>

lemma from_str_to_str_by_value:
  assumes "order_by c = Some n" and "direction c = Some d"
    and "CHR ''('' \<notin> set n" and "CHR '')'' \<notin> set n"
  shows "from_str (to_str ByValue c) = Inr c"
proof -
  have "from_str (to_str ByValue c) = Sort_init n (Direction_value d)"
    using from_str_to_str [OF assms, of ByValue] by simp
  also have "\<dots> = Inr \<lparr>order_by = Some n, direction = Some d\<rparr>"
    by (simp add: Sort_init_def Direction_of_value_value)
  also have "\<dots> = Inr c"
    using assms(1,2) by simp
  finally show ?thesis .
qed

text \<open>
  Where a member is formatted as class name and member name, the rendered direction is
  no value of the enum, and parsing the rendered text fails for every such criterion.
\<close>

lemma from_str_to_str_by_name:
  assumes "order_by c = Some n" and "direction c = Some d"
    and "CHR ''('' \<notin> set n" and "CHR '')'' \<notin> set n"
  shows "from_str (to_str ByName c) = Inl ValidationError"
proof -
  have "from_str (to_str ByName c) = Sort_init n (''Direction.'' @ Direction_name d)"
    using from_str_to_str [OF assms, of ByName] by simp
  also have "\<dots> = Inl ValidationError"
    by (cases d) (simp_all add: Sort_init_def Direction_of_value_def Direction_members_def)
  finally show ?thesis .
qed

text \<open>
  C6. The claim is that parsing the rendering of a sort criterion gives the criterion
  back. \<open>to_str\<close> formats the enum member itself, not its value (as \<open>query_regex\<close>
  does). On Python 3.11 and later the criterion \<open>id\<close>, descending, is rendered as
  \<open>id(Direction.DESC)\<close>, and \<open>from_str\<close> fails on that text with a \<open>ValidationError\<close>.
  Up to Python 3.10 the rendering is \<open>id(desc)\<close> and the round trip holds.
\<close>

theorem to_str_by_name_not_parsed:
  "to_str ByName \<lparr>order_by = Some ''id'', direction = Some DESC\<rparr> = ''id(Direction.DESC)''
   \<and> from_str ''id(Direction.DESC)'' = Inl ValidationError
   \<and> to_str ByValue \<lparr>order_by = Some ''id'', direction = Some DESC\<rparr> = ''id(desc)''
   \<and> from_str ''id(desc)'' = Inr \<lparr>order_by = Some ''id'', direction = Some DESC\<rparr>"
  by (simp add: to_str_def fmt_order_by_def fmt_direction_def from_str_def str_slice_def
      Sort_init_def Direction_of_value_def Direction_members_def)

lemma str_index_Some_take:
  "str_index s c = Some i \<Longrightarrow> c \<notin> set (take i s) \<and> i < length s \<and> s ! i = c"
proof (induction s arbitrary: i)
  case Nil
  then show ?case by simp
next
  case (Cons x xs)
  then show ?case
    by (cases i) (auto split: if_splits)
qed

lemma str_index_None: "str_index s c = None \<longleftrightarrow> c \<notin> set s"
  by (induction s) auto

lemma str_index_drop:
  assumes "c \<notin> set (take k s)"
  shows "str_index s c = map_option (\<lambda>j. k + j) (str_index (drop k s) c)"
  using assms
proof (induction s arbitrary: k)
  case Nil
  then show ?case by simp
next
  case (Cons x xs)
  show ?case
  proof (cases k)
    case 0
    then show ?thesis by (simp add: option.map_ident)
  next
    case (Suc m)
    with Cons.prems have "x \<noteq> c" and "c \<notin> set (take m xs)" by auto
    with Cons.IH [of m] Suc show ?thesis
      by (simp add: option.map_comp comp_def)
  qed
qed

lemma from_str_agrees_with_spec:
  assumes "CHR '')'' \<notin> set (takeWhile (\<lambda>c. c \<noteq> CHR ''('') s)"
  shows "result_of (from_str s) = parseSortCriterion_spec s"
proof (cases "str_index s (CHR ''('')")
  case None
  then show ?thesis
    by (simp add: from_str_def parseSortCriterion_spec_def result_of_def)
next
  case (Some i)
  from str_index_Some_take [OF Some]
  have i: "CHR ''('' \<notin> set (take i s)" "i < length s" "s ! i = CHR ''(''" by auto
  have "takeWhile (\<lambda>c. c \<noteq> CHR ''('') s = take i s"
  proof -
    have "s = take i s @ CHR ''('' # drop (Suc i) s"
      using i(2,3) by (metis id_take_nth_drop)
    then have "takeWhile (\<lambda>c. c \<noteq> CHR ''('') s
        = takeWhile (\<lambda>c. c \<noteq> CHR ''('') (take i s @ CHR ''('' # drop (Suc i) s)"
      by simp
    also have "\<dots> = take i s"
      using i(1) by (subst takeWhile_append2) auto
    finally show ?thesis .
  qed
  with assms have "CHR '')'' \<notin> set (take i s)" by simp
  moreover have "s ! i \<noteq> CHR '')''" using i(3) by simp
  ultimately have pre: "CHR '')'' \<notin> set (take (Suc i) s)"
    using i(2) by (simp add: take_Suc_conv_app_nth)
  have idx: "str_index s (CHR '')'')
      = map_option (\<lambda>j. Suc i + j) (str_index (drop (Suc i) s) (CHR '')''))"
    by (rule str_index_drop [OF pre])
  show ?thesis
  proof (cases "str_index (drop (Suc i) s) (CHR '')'')")
    case None
    with idx Some show ?thesis
      by (simp add: from_str_def parseSortCriterion_spec_def result_of_def)
  next
    case (Some j)
    with idx have "str_index s (CHR '')'') = Some (Suc i + j)" by simp
    moreover have "str_slice s (Suc i) (Suc i + j) = take j (drop (Suc i) s)"
      by (simp add: str_slice_def)
    ultimately show ?thesis
      using \<open>str_index s (CHR ''('') = Some i\<close> Some
      by (simp add: from_str_def parseSortCriterion_spec_def result_of_def Sort_init_def
          str_slice_def split: option.splits)
  qed
qed

lemma from_str_close_before_open:
  assumes "CHR '')'' \<in> set (takeWhile (\<lambda>c. c \<noteq> CHR ''('') s)"
  shows "isl (from_str s)"
proof (cases "str_index s (CHR ''('')")
  case None
  then show ?thesis by (simp add: from_str_def)
next
  case (Some i)
  from str_index_Some_take [OF Some]
  have i: "CHR ''('' \<notin> set (take i s)" "i < length s" "s ! i = CHR ''(''" by auto
  have tw: "takeWhile (\<lambda>c. c \<noteq> CHR ''('') s = take i s"
  proof -
    have "s = take i s @ CHR ''('' # drop (Suc i) s"
      using i(2,3) by (metis id_take_nth_drop)
    then have "takeWhile (\<lambda>c. c \<noteq> CHR ''('') s
        = takeWhile (\<lambda>c. c \<noteq> CHR ''('') (take i s @ CHR ''('' # drop (Suc i) s)"
      by simp
    also have "\<dots> = take i s"
      using i(1) by (subst takeWhile_append2) auto
    finally show ?thesis .
  qed
  with assms have "CHR '')'' \<in> set s" by (auto dest: in_set_takeD)
  then obtain j where j: "str_index s (CHR '')'') = Some j"
    using str_index_None [of s "CHR '')''"] by (cases "str_index s (CHR '')'')") auto
  have "j \<le> i"
  proof (rule ccontr)
    assume "\<not> j \<le> i"
    then have "take i s = take i (take j s)" by (simp add: min_def)
    then have "set (take i s) \<subseteq> set (take j s)" by (metis set_take_subset)
    with str_index_Some_take [OF j] assms tw show False by auto
  qed
  then have "str_slice s (i + 1) j = []" by (simp add: str_slice_def)
  with Some j show ?thesis
    by (simp add: from_str_def Sort_init_def Direction_of_value_def Direction_members_def)
qed

text \<open>
  C7, as amended. \<open>from_str\<close> looks for the first \<open>)\<close> of the whole text, not for the
  first one after the \<open>(\<close>. Where no \<open>)\<close> stands before the first \<open>(\<close> the two agree, and
  \<open>from_str\<close> does what the specification says: order_by is the text before the first
  \<open>(\<close>, direction the text between it and the next \<open>)\<close>, and the parse fails when a
  delimiter is absent or the direction is no enum value. Where a \<open>)\<close> stands before the
  first \<open>(\<close>, \<open>from_str\<close> fails. \<open>from_str("score(asc)")\<close> is the criterion \<open>score\<close>, ascending.
\<close>

theorem from_str_first_delimiters:
  "(CHR '')'' \<notin> set (takeWhile (\<lambda>c. c \<noteq> CHR ''('') s)
      \<longrightarrow> result_of (from_str s) = parseSortCriterion_spec s)
   \<and> (CHR '')'' \<in> set (takeWhile (\<lambda>c. c \<noteq> CHR ''('') s) \<longrightarrow> isl (from_str s))
   \<and> from_str ''score(asc)'' = Inr \<lparr>order_by = Some ''score'', direction = Some ASC\<rparr>"
proof (intro conjI impI)
  show "from_str ''score(asc)'' = Inr \<lparr>order_by = Some ''score'', direction = Some ASC\<rparr>"
    by (simp add: from_str_def str_slice_def Sort_init_def Direction_of_value_def
        Direction_members_def)
qed (erule from_str_agrees_with_spec, erule from_str_close_before_open)

theorem from_str_first_delimiters_witness:
  "result_of (from_str ''name(desc)'') = parseSortCriterion_spec ''name(desc)''
   \<and> parseSortCriterion_spec ''name(desc)''
       = Some \<lparr>order_by = Some ''name'', direction = Some DESC\<rparr>
   \<and> isl (from_str '')a(asc)'')"
  using from_str_first_delimiters [of "''name(desc)''"]
    from_str_first_delimiters [of "'')a(asc)''"]
  by (simp add: parseSortCriterion_spec_def Direction_of_value_def Direction_members_def)

theorem from_str_close_paren_first_counterexample:
  "from_str '')a(asc)'' = Inl ValidationError
   \<and> parseSortCriterion_spec '')a(asc)''
       = Some \<lparr>order_by = Some '')a'', direction = Some ASC\<rparr>"
  by (simp add: from_str_def parseSortCriterion_spec_def str_slice_def Sort_init_def
      Direction_of_value_def Direction_members_def)

section \<open>Properties of page requests\<close>

lemma Pageable_init_total:
  "Pageable_init sz pg srt = Inr \<lparr>sort_field = srt, size_field = sz, page = pg\<rparr>"
  by (simp add: Pageable_init_def and_then_def BaseModel_init_def Pageable_Config_def
      Pageable_defaults_def setattr_sort_def setattr_size_def setattr_page_def)

text \<open>
  C1. The claim is that a page request with \<open>size=0\<close> or \<open>page=0\<close> is rejected with a
  \<open>ValidationError\<close>. The constructor assigns its arguments after the model was built
  from its defaults, and the assignments are not validated: \<open>Pageable(0, 0, [])\<close> is a
  page request with size 0 and page 0.
\<close>

theorem Pageable_init_zero_accepted:
  "Pageable_init 0 0 [] = Inr \<lparr>sort_field = [], size_field = 0, page = 0\<rparr>
   \<and> Pageable_init 0 1 [] = Inr \<lparr>sort_field = [], size_field = 0, page = 1\<rparr>
   \<and> Pageable_init 100 0 [] = Inr \<lparr>sort_field = [], size_field = 100, page = 0\<rparr>"
  by (simp add: Pageable_init_total)



section \<open>Properties of the boundary pattern\<close>

lemma query_regex_text:
  "query_regex = ''^.+'' @ [backslash] @ ''((?:asc|desc)'' @ [backslash] @ '')$''"
  by (simp add: query_regex_def Direction_members_def)

lemma re_compile_query_regex: "re_compile query_regex = Some query_regex_ast"
  by (simp add: re_compile_def query_regex_text backslash_def close_frame_def query_regex_ast_def)

declare step.simps [simp del] iterate.simps [simp del]

lemma in_step_AnyChar:
  "cur' \<in> set (step AnyChar cur)
     \<longleftrightarrow> (\<exists>x. x \<noteq> newline \<and> snd cur = x # snd cur') \<and> \<not> fst cur'"
  by (cases cur; cases cur') (auto simp: step.simps split: list.splits)

lemma in_step_Seq:
  "cur' \<in> set (step (Seq r q) cur) \<longleftrightarrow> (\<exists>m. m \<in> set (step r cur) \<and> cur' \<in> set (step q m))"
  by (auto simp: step.simps)

lemma in_step_Alt:
  "cur' \<in> set (step (Alt r q) cur) \<longleftrightarrow> cur' \<in> set (step r cur) \<or> cur' \<in> set (step q cur)"
  by (simp add: step.simps)

lemma in_step_Bol: "cur' \<in> set (step Bol cur) \<longleftrightarrow> fst cur \<and> cur' = cur"
  by (cases cur) (auto simp: step.simps)


lemma in_iterate_AnyChar:
  "cur' \<in> set (iterate (step AnyChar) n cs)
     \<longleftrightarrow> (\<exists>cur \<in> set cs. \<exists>f. f \<noteq> [] \<and> length f \<le> n \<and> newline \<notin> set f
            \<and> snd cur = f @ snd cur') \<and> \<not> fst cur'"
proof (induction n arbitrary: cs)
  case 0
  then show ?case by (auto simp: iterate.simps)
next
  case (Suc n)
  let ?nxt = "remdups (concat (map (step AnyChar) cs))"
  have nxt: "\<And>m. m \<in> set ?nxt
      \<longleftrightarrow> (\<exists>cur \<in> set cs. \<exists>x. x \<noteq> newline \<and> snd cur = x # snd m) \<and> \<not> fst m"
    by (auto simp: in_step_AnyChar)
  show ?case
  proof
    assume "cur' \<in> set (iterate (step AnyChar) (Suc n) cs)"
    then consider "cur' \<in> set ?nxt" | "cur' \<in> set (iterate (step AnyChar) n ?nxt)"
      by (auto simp: Let_def iterate.simps)
    then show "(\<exists>cur \<in> set cs. \<exists>f. f \<noteq> [] \<and> length f \<le> Suc n \<and> newline \<notin> set f
            \<and> snd cur = f @ snd cur') \<and> \<not> fst cur'"
    proof cases
      case 1
      then obtain cur x where "cur \<in> set cs" "x \<noteq> newline" "snd cur = x # snd cur'" "\<not> fst cur'"
        using nxt by blast
      then show ?thesis
        by (intro conjI bexI [of _ cur] exI [of _ "[x]"]) auto
    next
      case 2
      then obtain m f where m: "m \<in> set ?nxt" "f \<noteq> []" "length f \<le> n" "newline \<notin> set f"
        "snd m = f @ snd cur'" "\<not> fst cur'"
        using Suc.IH by blast
      then obtain cur x where "cur \<in> set cs" "x \<noteq> newline" "snd cur = x # snd m"
        using nxt by blast
      with m show ?thesis
        by (intro conjI bexI [of _ cur] exI [of _ "x # f"]) auto
    qed
  next
    assume "(\<exists>cur \<in> set cs. \<exists>f. f \<noteq> [] \<and> length f \<le> Suc n \<and> newline \<notin> set f
            \<and> snd cur = f @ snd cur') \<and> \<not> fst cur'"
    then obtain cur f where c: "cur \<in> set cs" "f \<noteq> []" "length f \<le> Suc n" "newline \<notin> set f"
      "snd cur = f @ snd cur'" "\<not> fst cur'"
      by blast
    then obtain x g where f: "f = x # g" by (cases f) auto
    show "cur' \<in> set (iterate (step AnyChar) (Suc n) cs)"
    proof (cases "g = []")
      case True
      with c f have "(\<exists>cur \<in> set cs. \<exists>x. x \<noteq> newline \<and> snd cur = x # snd cur') \<and> \<not> fst cur'"
        by (intro conjI bexI [of _ cur] exI [of _ x]) auto
      then have "cur' \<in> set ?nxt" by (rule iffD2 [OF nxt])
      then show ?thesis by (auto simp: Let_def iterate.simps)
    next
      case False
      from c f have "(\<exists>cur \<in> set cs. \<exists>x. x \<noteq> newline
          \<and> snd cur = x # snd (False, g @ snd cur')) \<and> \<not> fst (False, g @ snd cur')"
        by (intro conjI bexI [of _ cur] exI [of _ x]) auto
      then have "(False, g @ snd cur') \<in> set ?nxt" by (rule iffD2 [OF nxt])
      with False c f
      have "(\<exists>cur \<in> set ?nxt. \<exists>f. f \<noteq> [] \<and> length f \<le> n \<and> newline \<notin> set f
            \<and> snd cur = f @ snd cur') \<and> \<not> fst cur'"
        by (intro conjI bexI [of _ "(False, g @ snd cur')"] exI [of _ g]) auto
      then have "cur' \<in> set (iterate (step AnyChar) n ?nxt)"
        by (rule iffD2 [OF Suc.IH])
      then show ?thesis by (auto simp: Let_def iterate.simps)
    qed
  qed
qed

lemma in_step_Plus_AnyChar:
  "cur' \<in> set (step (Plus AnyChar) cur)
     \<longleftrightarrow> (\<exists>f. f \<noteq> [] \<and> newline \<notin> set f \<and> snd cur = f @ snd cur') \<and> \<not> fst cur'"
proof -
  have "\<And>f. snd cur = f @ snd cur' \<Longrightarrow> length f \<le> Suc (length (snd cur))"
    by simp
  then show ?thesis
    by (auto simp: step.simps(8) in_iterate_AnyChar)
qed

lemma step_Lit_simps:
  "step (Lit c) (b, []) = []"
  "step (Lit c) (b, x # r) = (if x = c then [(False, r)] else [])"
  by (simp_all add: step.simps)

lemma step_Eol_simp:
  "step Eol (b, r) = (if r = [] \<or> r = [newline] then [(b, r)] else [])"
  by (simp add: step.simps)

lemma step_Seq_simp: "step (Seq p q) cur = concat (map (step q) (step p cur))"
  by (simp add: step.simps)

lemma step_Alt_simp: "step (Alt p q) cur = step p cur @ step q cur"
  by (simp add: step.simps)

lemmas step_literal = step_Lit_simps step_Eol_simp step_Seq_simp step_Alt_simp

lemma step_tail_asc:
  "tail = [] \<or> tail = [newline]
     \<Longrightarrow> step query_regex_tail (b, ''(asc)'' @ tail) = [(False, tail)]"
  by (auto simp: query_regex_tail_def step_literal)

lemma step_tail_desc:
  "tail = [] \<or> tail = [newline]
     \<Longrightarrow> step query_regex_tail (b, ''(desc)'' @ tail) = [(False, tail)]"
  by (auto simp: query_regex_tail_def step_literal)

lemma Lit_then:
  "e \<in> set (step (Seq (Lit c) q) (b, r)) \<longleftrightarrow> (\<exists>r'. r = c # r' \<and> e \<in> set (step q (False, r')))"
  by (cases r) (auto simp: step_literal)

lemma in_step_Lit_pair:
  "e \<in> set (step (Lit c) (b, r)) \<longleftrightarrow> (\<exists>r'. r = c # r' \<and> e = (False, r'))"
  by (cases r) (auto simp: step_literal)

lemma in_step_tail:
  assumes "e \<in> set (step query_regex_tail (b, r))"
  shows "\<exists>d tail. (tail = [] \<or> tail = [newline]) \<and> r = ''('' @ Direction_value d @ '')'' @ tail"
proof -
  from assms obtain r1 where r1: "r = CHR ''('' # r1"
    and e1: "e \<in> set (step (Seq (Alt (Seq (Lit (CHR ''a'')) (Seq (Lit (CHR ''s'')) (Lit (CHR ''c''))))
                 (Seq (Lit (CHR ''d'')) (Seq (Lit (CHR ''e'')) (Seq (Lit (CHR ''s'')) (Lit (CHR ''c''))))))
          (Seq (Lit (CHR '')'')) Eol)) (False, r1))"
    unfolding query_regex_tail_def Lit_then by blast
  from e1 obtain m where
    m: "m \<in> set (step (Seq (Lit (CHR ''a'')) (Seq (Lit (CHR ''s'')) (Lit (CHR ''c'')))) (False, r1))
        \<or> m \<in> set (step (Seq (Lit (CHR ''d'')) (Seq (Lit (CHR ''e'')) (Seq (Lit (CHR ''s'')) (Lit (CHR ''c''))))) (False, r1))"
    and e2: "e \<in> set (step (Seq (Lit (CHR '')'')) Eol) m)"
    unfolding in_step_Seq [of e "Alt _ _"] in_step_Alt by blast
  from m have "m = (False, snd m) \<and> (r1 = ''asc'' @ snd m \<or> r1 = ''desc'' @ snd m)"
    unfolding Lit_then in_step_Lit_pair by auto
  then obtain r2 where m2: "m = (False, r2)" and w: "r1 = ''asc'' @ r2 \<or> r1 = ''desc'' @ r2"
    by blast
  from e2 obtain r3 where r3: "r2 = CHR '')'' # r3" and "e \<in> set (step Eol (False, r3))"
    unfolding m2 Lit_then by blast
  then have t: "r3 = [] \<or> r3 = [newline]"
    by (auto simp: step_Eol_simp split: if_splits)
  from w show ?thesis
  proof
    assume "r1 = ''asc'' @ r2"
    with r1 r3 t show ?thesis
      by (intro exI [of _ ASC] exI [of _ r3]) simp
  next
    assume "r1 = ''desc'' @ r2"
    with r1 r3 t show ?thesis
      by (intro exI [of _ DESC] exI [of _ r3]) simp
  qed
qed

lemma step_query_regex_ast:
  "step query_regex_ast (True, s) \<noteq> []
     \<longleftrightarrow> (\<exists>f d tail. f \<noteq> [] \<and> newline \<notin> set f \<and> (tail = [] \<or> tail = [newline])
            \<and> s = f @ ''('' @ Direction_value d @ '')'' @ tail)"
  (is "?L \<longleftrightarrow> ?R")
proof
  have ast: "query_regex_ast = Seq Bol (Seq (Plus AnyChar) query_regex_tail)"
    by (simp add: query_regex_ast_def query_regex_tail_def)
  {
    assume ?L
    then obtain e where "e \<in> set (step query_regex_ast (True, s))"
      by (cases "step query_regex_ast (True, s)") auto
    then obtain m where m: "m \<in> set (step (Plus AnyChar) (True, s))"
      and e: "e \<in> set (step query_regex_tail m)"
      unfolding ast in_step_Seq in_step_Bol by auto
    from m obtain f where f: "f \<noteq> []" "newline \<notin> set f" "s = f @ snd m"
      unfolding in_step_Plus_AnyChar by auto
    from e have "e \<in> set (step query_regex_tail (fst m, snd m))" by simp
    from in_step_tail [OF this] obtain d tail where
      "tail = [] \<or> tail = [newline]" "snd m = ''('' @ Direction_value d @ '')'' @ tail"
      by blast
    with f show ?R by blast
  }
  {
    assume ?R
    then obtain f d tail where R: "f \<noteq> []" "newline \<notin> set f" "tail = [] \<or> tail = [newline]"
      "s = f @ ''('' @ Direction_value d @ '')'' @ tail"
      by blast
    let ?m = "(False, ''('' @ Direction_value d @ '')'' @ tail)"
    have "?m \<in> set (step (Plus AnyChar) (True, s))"
      unfolding in_step_Plus_AnyChar using R by auto
    moreover have "(False, tail) \<in> set (step query_regex_tail ?m)"
      using step_tail_asc [OF R(3)] step_tail_desc [OF R(3)] by (cases d) simp_all
    ultimately have "(False, tail) \<in> set (step query_regex_ast (True, s))"
      unfolding ast in_step_Seq in_step_Bol by auto
    then show ?L by auto
  }
qed

lemma re_match_query_regex:
  "re_match query_regex s
     = Some (\<exists>f d tail. f \<noteq> [] \<and> newline \<notin> set f \<and> (tail = [] \<or> tail = [newline])
            \<and> s = f @ ''('' @ Direction_value d @ '')'' @ tail)"
  by (simp add: re_match_def re_compile_query_regex step_query_regex_ast)


text \<open>
  C9, as amended. The pattern returned by \<open>query_regex()\<close> is built from the values of
  the \<open>Direction\<close> enum and anchored at both ends. It matches exactly the strings that
  consist of a non-empty text without a line feed, then \<open>(asc)\<close> or \<open>(desc)\<close>, then
  nothing or one line feed. It matches \<open>id(desc)\<close> and \<open>name(asc)\<close> and rejects
  \<open>id(ascending)\<close> and \<open>id\<close>.
\<close>

theorem query_regex_matches:
  "re_match query_regex s
     = Some (\<exists>f d tail. f \<noteq> [] \<and> newline \<notin> set f \<and> (tail = [] \<or> tail = [newline])
            \<and> s = f @ ''('' @ Direction_value d @ '')'' @ tail)
   \<and> re_match query_regex ''id(desc)'' = Some True
   \<and> re_match query_regex ''name(asc)'' = Some True
   \<and> re_match query_regex ''id(ascending)'' = Some False
   \<and> re_match query_regex ''id'' = Some False"
proof (intro conjI)
  show "re_match query_regex s
     = Some (\<exists>f d tail. f \<noteq> [] \<and> newline \<notin> set f \<and> (tail = [] \<or> tail = [newline])
            \<and> s = f @ ''('' @ Direction_value d @ '')'' @ tail)"
    by (rule re_match_query_regex)
  show "re_match query_regex ''id(desc)'' = Some True"
    by (simp add: re_match_def re_compile_query_regex query_regex_ast_def step.simps
        iterate.simps newline_def)
  show "re_match query_regex ''name(asc)'' = Some True"
    by (simp add: re_match_def re_compile_query_regex query_regex_ast_def step.simps
        iterate.simps newline_def)
  show "re_match query_regex ''id(ascending)'' = Some False"
    by (simp add: re_match_def re_compile_query_regex query_regex_ast_def step.simps
        iterate.simps newline_def)
  show "re_match query_regex ''id'' = Some False"
    by (simp add: re_match_def re_compile_query_regex query_regex_ast_def step.simps
        iterate.simps newline_def)
qed

theorem query_regex_line_feed_counterexample:
  "re_match query_regex (''id(desc)'' @ [newline]) = Some True
   \<and> \<not> sort_token_form (''id(desc)'' @ [newline])
   \<and> sort_token_form (''a'' @ [newline] @ ''b(asc)'')
   \<and> re_match query_regex (''a'' @ [newline] @ ''b(asc)'') = Some False"
  by (simp add: re_match_def re_compile_query_regex query_regex_ast_def step.simps
      iterate.simps newline_def sort_token_form_def Direction_members_def)

text \<open>
  C10. A sort token that the boundary pattern accepts need not parse: \<open>a(b(asc)\<close> is
  matched by the pattern, and \<open>from_str\<close> fails on it, the text between the first \<open>(\<close>
  and the first \<open>)\<close> being \<open>b(asc\<close>.
\<close>

theorem query_regex_accepts_unparsable:
  "re_match query_regex ''a(b(asc)'' = Some True
   \<and> from_str ''a(b(asc)'' = Inl ValidationError
   \<and> (\<exists>s. re_match query_regex s = Some True \<and> isl (from_str s))"
proof -
  have m: "re_match query_regex ''a(b(asc)'' = Some True"
    by (simp add: re_match_def re_compile_query_regex query_regex_ast_def step.simps
        iterate.simps newline_def)
  have p: "from_str ''a(b(asc)'' = Inl ValidationError"
    by (simp add: from_str_def str_slice_def Sort_init_def Direction_of_value_def
        Direction_members_def)
  from m p have "re_match query_regex ''a(b(asc)'' = Some True \<and> isl (from_str ''a(b(asc)'')"
    by simp
  then have "\<exists>s. re_match query_regex s = Some True \<and> isl (from_str s)" ..
  with m p show ?thesis by simp
qed

section \<open>Properties of the temporal coercion\<close>

lemma numeric_probe_not_number:
  "numeric_probe lib PyNone = Inl TypeError"
  "numeric_probe lib (PyDatetime d) = Inl TypeError"
  "numeric_probe lib (PyDate e) = Inl TypeError"
  by (simp_all add: numeric_probe_def py_float_def)

lemma coerce_numeric:
  assumes "py_float lib v = Inr f"
    and "type_in_int_float v \<or> (\<exists>s. v = PyStr s)"
  shows "datetime_or_date_to_timestamp lib TDatetime v
           = (case fromtimestamp lib f of
                None \<Rightarrow> Inl (NotValid v)
              | Some d \<Rightarrow> Inr (PyDatetime d))"
proof -
  have probe: "numeric_probe lib v = Inr True"
    using assms(1) by (simp add: numeric_probe_def)
  from assms(2) show ?thesis
  proof
    assume "type_in_int_float v"
    then show ?thesis
      using assms(1) probe
      by (cases v)
        (auto simp: datetime_or_date_to_timestamp_def and_then_def type_in_int_float_def
          from_timestamp_branch_def split: option.splits)
  next
    assume "\<exists>s. v = PyStr s"
    then show ?thesis
      using assms(1) probe
      by (auto simp: datetime_or_date_to_timestamp_def and_then_def from_timestamp_branch_def)
  qed
qed

lemma coerce_int_overflow:
  "float_of_int lib i = None
     \<Longrightarrow> datetime_or_date_to_timestamp lib TDatetime (PyInt i) = Inl OverflowError"
  by (simp add: datetime_or_date_to_timestamp_def numeric_probe_def py_float_def and_then_def)

lemma utc_lib_iso_example:
  "float_of_str utc_lib ''2023-05-01T12:00:00'' = None"
  "fromisoformat utc_lib ''2023-05-01T12:00:00''
     = Some \<lparr>year = 2023, month = 5, day = 1, hour = 12, minute = 0, second = 0,
             microsecond = 0, tzinfo = None\<rparr>"
  "timestamp utc_lib \<lparr>year = 2023, month = 5, day = 1, hour = 12, minute = 0, second = 0,
             microsecond = 0, tzinfo = None\<rparr> = Some 1682942400"
  by code_simp+

lemma utc_lib_not_a_date:
  "float_of_str utc_lib ''tomorrow'' = None"
  "fromisoformat utc_lib ''tomorrow'' = None"
  by code_simp+

text \<open>
  C2. The claim is that \<open>null\<close> on a temporal field coerces to \<open>null\<close> and never raises.
  The validator first probes \<open>float(v)\<close> and catches only \<open>ValueError\<close>; \<open>float(None)\<close>
  raises \<open>TypeError\<close>, which leaves the validator before the test \<open>v is None\<close> is
  reached, for a \<open>datetime\<close> field and for a \<open>date\<close> field, whatever the library
  functions do.
\<close>

theorem coerce_None_raises_TypeError:
  "datetime_or_date_to_timestamp lib TDatetime PyNone = Inl TypeError
   \<and> datetime_or_date_to_timestamp lib TDate PyNone = Inl TypeError"
  by (simp add: datetime_or_date_to_timestamp_def numeric_probe_not_number and_then_def)

text \<open>
  C5. The claim is that a \<open>datetime\<close> given to a \<open>datetime\<close> field is returned with its
  time zone stripped and a \<open>date\<close> given to a \<open>date\<close> field is returned unchanged. Both
  branches stand behind the same probe: \<open>float\<close> of a \<open>datetime\<close> or of a \<open>date\<close> raises
  \<open>TypeError\<close>, and the validator raises it instead of returning.
\<close>

theorem coerce_same_type_raises_TypeError:
  "datetime_or_date_to_timestamp lib TDatetime (PyDatetime d) = Inl TypeError
   \<and> datetime_or_date_to_timestamp lib TDate (PyDate e) = Inl TypeError"
  by (simp add: datetime_or_date_to_timestamp_def numeric_probe_not_number and_then_def)

text \<open>
  C4, as amended. On a \<open>datetime\<close> field a string that \<open>float\<close> rejects is parsed by
  \<open>datetime.fromisoformat\<close>, and the validator returns the \<open>timestamp()\<close> of the parsed
  datetime, a float, not a datetime; when \<open>fromisoformat\<close> rejects the string (or
  \<open>timestamp()\<close> raises) the validator raises \<open>ValueError('... is not valid')\<close>. For
  \<open>2023-05-01T12:00:00\<close> on a host in UTC the result is the float \<open>1682942400\<close>.
\<close>

theorem coerce_non_numeric_string:
  assumes "float_of_str lib s = None"
  shows "datetime_or_date_to_timestamp lib TDatetime (PyStr s)
           = (case fromisoformat lib s of
                None \<Rightarrow> Inl (NotValid (PyStr s))
              | Some d \<Rightarrow>
                  (case timestamp lib d of
                     None \<Rightarrow> Inl (NotValid (PyStr s))
                   | Some t \<Rightarrow> Inr (PyFloat t)))"
  using assms
  by (simp add: datetime_or_date_to_timestamp_def numeric_probe_def py_float_def and_then_def
      type_in_int_float_def parse_branch_def)

theorem coerce_non_numeric_string_witness:
  "datetime_or_date_to_timestamp utc_lib TDatetime (PyStr ''2023-05-01T12:00:00'')
     = Inr (PyFloat 1682942400)
   \<and> datetime_or_date_to_timestamp utc_lib TDatetime (PyStr ''tomorrow'')
     = Inl (NotValid (PyStr ''tomorrow''))"
  using coerce_non_numeric_string [OF utc_lib_iso_example(1)]
    coerce_non_numeric_string [OF utc_lib_not_a_date(1)]
  by (simp add: utc_lib_iso_example(2,3) utc_lib_not_a_date(2))

theorem coerce_iso_string_counterexample:
  "datetime_or_date_to_timestamp utc_lib TDatetime (PyStr ''2023-05-01T12:00:00'')
     = Inr (PyFloat 1682942400)
   \<and> datetime_or_date_to_timestamp utc_lib TDatetime (PyStr ''2023-05-01T12:00:00'')
     \<noteq> Inr (PyDatetime \<lparr>year = 2023, month = 5, day = 1, hour = 12, minute = 0,
                          second = 0, microsecond = 0, tzinfo = None\<rparr>)"
proof -
  have "datetime_or_date_to_timestamp utc_lib TDatetime (PyStr ''2023-05-01T12:00:00'')
     = Inr (PyFloat 1682942400)"
    by (simp add: datetime_or_date_to_timestamp_def numeric_probe_def py_float_def and_then_def
        type_in_int_float_def parse_branch_def utc_lib_iso_example)
  then show ?thesis by simp
qed

text \<open>
  C8. The claim is that every numeric input to a \<open>datetime\<close> field becomes
  \<open>fromtimestamp(float(n))\<close> and that a value out of range fails with
  \<open>ValueError('... is not valid')\<close>. The probe \<open>float(v)\<close> stands outside the \<open>try\<close> that
  raises this error and catches only \<open>ValueError\<close>: for an \<open>int\<close> too large for a
  float, such as \<open>10 ** 400\<close>, the \<open>OverflowError\<close> of \<open>float\<close> leaves the validator.
\<close>

theorem coerce_huge_int_raises_OverflowError:
  "datetime_or_date_to_timestamp utc_lib TDatetime (PyInt (10 ^ 400)) = Inl OverflowError"
  by (rule coerce_int_overflow) (simp add: utc_lib_def double_float_of_int_def)

end
